theory Spec2Isabelle
  imports Complex_Main
begin

section \<open>Signature collector (signature_collector.py)\<close>

text \<open>
  Times (\<^verbatim>\<open>datetime\<close>) are integers counting microseconds; every call of
  \<^verbatim>\<open>datetime.now()\<close> is an explicit argument \<open>now\<close>. Amounts are finite floats,
  read as reals (the code only compares them with zero).
\<close>

datatype SignatureStatus = PENDING | IN_PROGRESS | COMPLETED | FAILED | EXPIRED | CANCELLED

datatype SignatureType = ETHEREUM | EIP712 | MULTISIG | THRESHOLD

record GuardianSignature =
  guardian_address :: string
  signature :: string
  signature_type :: SignatureType
  timestamp :: int
  message_hash_sig :: string
  verified :: bool

record SignatureCollection =
  collection_id :: string
  execution_id :: string
  required_signatures :: int
  collected_signatures :: "GuardianSignature list"
  status :: SignatureStatus
  created_at :: int
  expires_at :: int
  message_to_sign :: string
  message_hash :: string

text \<open>The properties of the dataclass.\<close>

definition collected_count :: "SignatureCollection \<Rightarrow> int" where
  "collected_count c = int (length (filter verified (collected_signatures c)))"

definition is_complete :: "SignatureCollection \<Rightarrow> bool" where
  "is_complete c \<longleftrightarrow> collected_count c \<ge> required_signatures c"

definition is_expired :: "int \<Rightarrow> SignatureCollection \<Rightarrow> bool" where
  "is_expired now c \<longleftrightarrow> now > expires_at c"

subsection \<open>Strings: decimal and hexadecimal formatting, lower case\<close>

text \<open>Digits are looked up below 10 and below 16 only.\<close>

definition digit_char :: "nat \<Rightarrow> char" where
  "digit_char d = ''0123456789'' ! d"

fun str_nat :: "nat \<Rightarrow> string" where
  "str_nat n = (if n < 10 then [digit_char n] else str_nat (n div 10) @ [digit_char (n mod 10)])"

declare str_nat.simps [simp del]

definition str_int :: "int \<Rightarrow> string" where
  "str_int i = (if i < 0 then CHR ''-'' # str_nat (nat (- i)) else str_nat (nat i))"

definition hex_digit :: "nat \<Rightarrow> char" where
  "hex_digit d = ''0123456789abcdef'' ! d"

text \<open>\<^verbatim>\<open>f'{ord(c):02x}'\<close> on a character below 256.\<close>

definition hex02 :: "char \<Rightarrow> string" where
  "hex02 c = [hex_digit ((of_char c :: nat) div 16), hex_digit ((of_char c :: nat) mod 16)]"

definition hex_of_prefix :: "string \<Rightarrow> string" where
  "hex_of_prefix s = ''0x'' @ concat (map hex02 (take 32 s))"

definition lower_char :: "char \<Rightarrow> char" where
  "lower_char c = (let n = (of_char c :: nat) in if 65 \<le> n \<and> n \<le> 90 then char_of (n + 32) else c)"

definition lower :: "string \<Rightarrow> string" where
  "lower s = map lower_char s"

text \<open>Python's \<^verbatim>\<open>xs[:n]\<close>, also for a negative \<open>n\<close>.\<close>

definition py_slice_to :: "'a list \<Rightarrow> int \<Rightarrow> 'a list" where
  "py_slice_to xs n = (if n \<ge> 0 then take (nat n) xs else take (nat (int (length xs) + n)) xs)"

subsection \<open>The collector and what it depends on\<close>

text \<open>
  The environment of a collector: whether the web3 package could be imported, the keccak
  hash and the recovery of the signer of a message (\<open>None\<close> when the library raises).
\<close>

record web3_env =
  WEB3_AVAILABLE :: bool
  keccak_hex :: "string \<Rightarrow> string"
  recover_message :: "string \<Rightarrow> string \<Rightarrow> string option"

record SignatureCollector =
  collections :: "string \<rightharpoonup> SignatureCollection"
  mock_guardians :: "string list"

definition init_mock_guardians :: "string list" where
  "init_mock_guardians =
     [''0x742d35Cc6634C0532925a3b8D4C9db96590c6C87'',
      ''0x8ba1f109551bD432803012645Hac136c22C177e9'',
      ''0x1234567890123456789012345678901234567890'',
      ''0xabcdefabcdefabcdefabcdefabcdefabcdefabcd'',
      ''0x9876543210987654321098765432109876543210'']"

definition new_SignatureCollector :: SignatureCollector where
  "new_SignatureCollector = \<lparr>collections = Map.empty, mock_guardians = init_mock_guardians\<rparr>"

definition create_signature_message :: "string \<Rightarrow> string" where
  "create_signature_message eid = ''Emergency Guardian Execution Authorization: '' @ eid"

definition hash_message :: "web3_env \<Rightarrow> string \<Rightarrow> string" where
  "hash_message env msg = (if WEB3_AVAILABLE env then keccak_hex env msg else hex_of_prefix msg)"

definition microseconds_per_hour :: int where
  "microseconds_per_hour = 3600000000"

definition initialize_collection ::
  "web3_env \<Rightarrow> int \<Rightarrow> SignatureCollector \<Rightarrow> string \<Rightarrow> int \<Rightarrow> int \<Rightarrow> bool \<times> SignatureCollector" where
  "initialize_collection env now sc eid required timelock_hours =
     (let msg = create_signature_message eid;
          collection = \<lparr>collection_id = ''sig_'' @ eid @ ''_'' @ str_int (now div 1000000),
                        execution_id = eid,
                        required_signatures = required,
                        collected_signatures = [],
                        status = PENDING,
                        created_at = now,
                        expires_at = now + timelock_hours * microseconds_per_hour,
                        message_to_sign = msg,
                        message_hash = hash_message env msg\<rparr>
      in (True, sc\<lparr>collections := (collections sc)(eid \<mapsto> collection)\<rparr>))"

text \<open>
  \<^verbatim>\<open>_simulate_guardian_signature\<close>: the stand-in guardian signs; the entry is
  appended and the collection completed when the count is reached.
\<close>

definition simulate_guardian_signature :: "int \<Rightarrow> string \<Rightarrow> SignatureCollection \<Rightarrow> SignatureCollection" where
  "simulate_guardian_signature now guardian c =
     (let sig = \<lparr>guardian_address = guardian,
                  signature = hex_of_prefix guardian,
                  signature_type = ETHEREUM,
                  timestamp = now,
                  message_hash_sig = message_hash c,
                  verified = True\<rparr>;
          c' = c\<lparr>collected_signatures := collected_signatures c @ [sig]\<rparr>
      in if is_complete c' then c'\<lparr>status := COMPLETED\<rparr> else c')"

text \<open>
  \<^verbatim>\<open>_send_signature_requests\<close>: one request per guardian of the roster
  \<^verbatim>\<open>mock_guardians[:required_signatures + 2]\<close>, each answered by the stand-in.
\<close>

definition send_signature_requests :: "int \<Rightarrow> string list \<Rightarrow> SignatureCollection \<Rightarrow> SignatureCollection" where
  "send_signature_requests now roster c =
     foldl (\<lambda>c g. simulate_guardian_signature now g c) c
       (py_slice_to roster (required_signatures c + 2))"

text \<open>One round of the loop of \<^verbatim>\<open>_monitor_collection\<close>.\<close>

definition monitor_collection_round :: "int \<Rightarrow> SignatureCollection \<Rightarrow> SignatureCollection" where
  "monitor_collection_round now c =
     (if status c = IN_PROGRESS then
        (if is_expired now c then c\<lparr>status := EXPIRED\<rparr>
         else if is_complete c then c\<lparr>status := COMPLETED\<rparr>
         else c)
      else c)"

text \<open>
  \<^verbatim>\<open>start_collection\<close>, run without interruption. The emergency and the analysis it is
  given only fill the request that the stand-in answers, and are left out.
\<close>

definition start_collection :: "int \<Rightarrow> SignatureCollector \<Rightarrow> string \<Rightarrow> bool \<times> SignatureCollector" where
  "start_collection now sc eid =
     (case collections sc eid of
        None \<Rightarrow> (False, sc)
      | Some c \<Rightarrow>
          (True, sc\<lparr>collections := (collections sc)(eid \<mapsto>
                     send_signature_requests now (mock_guardians sc) (c\<lparr>status := IN_PROGRESS\<rparr>))\<rparr>))"

definition verify_signature :: "web3_env \<Rightarrow> string \<Rightarrow> string \<Rightarrow> string \<Rightarrow> SignatureType \<Rightarrow> bool" where
  "verify_signature env guardian sig mhash ty =
     (if \<not> WEB3_AVAILABLE env then True
      else if ty = ETHEREUM then
        (case recover_message env mhash sig of
           None \<Rightarrow> False
         | Some recovered \<Rightarrow> lower recovered = lower guardian)
      else if ty = EIP712 then True
      else False)"

definition add_signature ::
  "web3_env \<Rightarrow> int \<Rightarrow> SignatureCollector \<Rightarrow> string \<Rightarrow> string \<Rightarrow> string \<Rightarrow> SignatureType
     \<Rightarrow> bool \<times> SignatureCollector" where
  "add_signature env now sc eid guardian sig ty =
     (case collections sc eid of
        None \<Rightarrow> (False, sc)
      | Some c \<Rightarrow>
          if is_expired now c then (False, sc)
          else if \<exists>s \<in> set (collected_signatures c). guardian_address s = guardian then (False, sc)
          else if \<not> verify_signature env guardian sig (message_hash c) ty then (False, sc)
          else
            (let gs = \<lparr>guardian_address = guardian,
                        signature = sig,
                        signature_type = ty,
                        timestamp = now,
                        message_hash_sig = message_hash c,
                        verified = True\<rparr>;
                 c' = c\<lparr>collected_signatures := collected_signatures c @ [gs]\<rparr>;
                 c'' = (if is_complete c' then c'\<lparr>status := COMPLETED\<rparr> else c')
             in (True, sc\<lparr>collections := (collections sc)(eid \<mapsto> c'')\<rparr>)))"

definition get_collection_status :: "SignatureCollector \<Rightarrow> string \<Rightarrow> SignatureCollection option" where
  "get_collection_status sc eid = collections sc eid"

text \<open>
  The dictionaries handed to the payment: \<^verbatim>\<open>to_dict()\<close> of a stored signature, or the
  placeholder the coordinator builds when it has no collector.
\<close>

datatype signature_dict = Sig_to_dict GuardianSignature | Mock_signature nat

definition get_collected_signatures :: "SignatureCollector \<Rightarrow> string \<Rightarrow> signature_dict list" where
  "get_collected_signatures sc eid =
     (case collections sc eid of
        None \<Rightarrow> []
      | Some c \<Rightarrow> map Sig_to_dict (filter verified (collected_signatures c)))"

definition cancel_collection :: "SignatureCollector \<Rightarrow> string \<Rightarrow> string \<Rightarrow> bool \<times> SignatureCollector" where
  "cancel_collection sc eid reason =
     (case collections sc eid of
        None \<Rightarrow> (False, sc)
      | Some c \<Rightarrow> (True, sc\<lparr>collections := (collections sc)(eid \<mapsto> c\<lparr>status := CANCELLED\<rparr>)\<rparr>))"

definition cleanup_collection :: "SignatureCollector \<Rightarrow> string \<Rightarrow> SignatureCollector" where
  "cleanup_collection sc eid = sc\<lparr>collections := (collections sc)(eid := None)\<rparr>"

subsection \<open>Sequences of operations on a collector\<close>

text \<open>
  The coroutines of the collector interleave at their \<^verbatim>\<open>await\<close>s. The steps between
  two \<^verbatim>\<open>await\<close>s are the operations below: the public methods, the first statement of
  \<^verbatim>\<open>start_collection\<close> alone, one stand-in signature, and one round of the monitor.
  A task works on the collection object it was started with; here it is looked up under
  its execution id at every step. The steps themselves are functions of one collection, and
  what is proved of them holds of a collection whether the collector still stores it or not.
\<close>

definition update_collection ::
  "(SignatureCollection \<Rightarrow> SignatureCollection) \<Rightarrow> SignatureCollector \<Rightarrow> string \<Rightarrow> SignatureCollector" where
  "update_collection f sc eid =
     (case collections sc eid of
        None \<Rightarrow> sc
      | Some c \<Rightarrow> sc\<lparr>collections := (collections sc)(eid \<mapsto> f c)\<rparr>)"

datatype collector_op =
    Op_initialize int string int int
  | Op_start_collection int string
  | Op_in_progress string
  | Op_simulate int string string
  | Op_monitor_round int string
  | Op_add_signature int string string string SignatureType
  | Op_cancel string string
  | Op_cleanup string

fun apply_op :: "web3_env \<Rightarrow> SignatureCollector \<Rightarrow> collector_op \<Rightarrow> SignatureCollector" where
  "apply_op env sc (Op_initialize now eid required hours) =
     snd (initialize_collection env now sc eid required hours)"
| "apply_op env sc (Op_start_collection now eid) = snd (start_collection now sc eid)"
| "apply_op env sc (Op_in_progress eid) = update_collection (\<lambda>c. c\<lparr>status := IN_PROGRESS\<rparr>) sc eid"
| "apply_op env sc (Op_simulate now eid guardian) =
     update_collection (simulate_guardian_signature now guardian) sc eid"
| "apply_op env sc (Op_monitor_round now eid) = update_collection (monitor_collection_round now) sc eid"
| "apply_op env sc (Op_add_signature now eid guardian sig ty) =
     snd (add_signature env now sc eid guardian sig ty)"
| "apply_op env sc (Op_cancel eid reason) = snd (cancel_collection sc eid reason)"
| "apply_op env sc (Op_cleanup eid) = cleanup_collection sc eid"

definition run_ops :: "web3_env \<Rightarrow> SignatureCollector \<Rightarrow> collector_op list \<Rightarrow> SignatureCollector" where
  "run_ops env sc ops = foldl (apply_op env) sc ops"

text \<open>The two invariants of a stored collection, and of all collections of a collector.\<close>

definition quorum_ok :: "SignatureCollection \<Rightarrow> bool" where
  "quorum_ok c \<longleftrightarrow> (status c = COMPLETED \<longrightarrow> required_signatures c \<le> collected_count c)"

definition all_verified :: "SignatureCollection \<Rightarrow> bool" where
  "all_verified c \<longleftrightarrow> list_all verified (collected_signatures c)"

definition every_collection :: "(SignatureCollection \<Rightarrow> bool) \<Rightarrow> SignatureCollector \<Rightarrow> bool" where
  "every_collection P sc \<longleftrightarrow> (\<forall>eid c. collections sc eid = Some c \<longrightarrow> P c)"

text \<open>The environment without the web3 package: every signature verifies.\<close>

definition mock_env :: web3_env where
  "mock_env = \<lparr>WEB3_AVAILABLE = False, keccak_hex = (\<lambda>s. s), recover_message = (\<lambda>h s. None)\<rparr>"

section \<open>Execution coordinator (execution_coordinator.py)\<close>

datatype ExecutionStatus =
    PENDING_exec | IN_PROGRESS_exec | WAITING_SIGNATURES | READY_TO_EXECUTE
  | EXECUTING | COMPLETED_exec | FAILED_exec | CANCELLED_exec

datatype ExecutionPhase =
  PREPARATION | SIGNATURE_COLLECTION | CONTRACT_EXECUTION | VERIFICATION | COMPLETION

fun ExecutionStatus_value :: "ExecutionStatus \<Rightarrow> string" where
  "ExecutionStatus_value PENDING_exec = ''pending''"
| "ExecutionStatus_value IN_PROGRESS_exec = ''in_progress''"
| "ExecutionStatus_value WAITING_SIGNATURES = ''waiting_signatures''"
| "ExecutionStatus_value READY_TO_EXECUTE = ''ready_to_execute''"
| "ExecutionStatus_value EXECUTING = ''executing''"
| "ExecutionStatus_value COMPLETED_exec = ''completed''"
| "ExecutionStatus_value FAILED_exec = ''failed''"
| "ExecutionStatus_value CANCELLED_exec = ''cancelled''"

fun ExecutionPhase_value :: "ExecutionPhase \<Rightarrow> string" where
  "ExecutionPhase_value PREPARATION = ''preparation''"
| "ExecutionPhase_value SIGNATURE_COLLECTION = ''signature_collection''"
| "ExecutionPhase_value CONTRACT_EXECUTION = ''contract_execution''"
| "ExecutionPhase_value VERIFICATION = ''verification''"
| "ExecutionPhase_value COMPLETION = ''completion''"

fun SignatureStatus_value :: "SignatureStatus \<Rightarrow> string" where
  "SignatureStatus_value PENDING = ''pending''"
| "SignatureStatus_value IN_PROGRESS = ''in_progress''"
| "SignatureStatus_value COMPLETED = ''completed''"
| "SignatureStatus_value FAILED = ''failed''"
| "SignatureStatus_value EXPIRED = ''expired''"
| "SignatureStatus_value CANCELLED = ''cancelled''"

text \<open>The enumerations of emergency_coordinator.py, with their values.\<close>

datatype SeverityLevel = LOW | MEDIUM | HIGH | CRITICAL

fun SeverityLevel_value :: "SeverityLevel \<Rightarrow> string" where
  "SeverityLevel_value LOW = ''low''"
| "SeverityLevel_value MEDIUM = ''medium''"
| "SeverityLevel_value HIGH = ''high''"
| "SeverityLevel_value CRITICAL = ''critical''"

datatype EmergencyType =
    MEDICAL_EMERGENCY | FINANCIAL_EMERGENCY | SECURITY_INCIDENT | ACCIDENT_INSURANCE
  | FAMILY_SUPPORT | LEGAL_ASSISTANCE | UNKNOWN

fun EmergencyType_value :: "EmergencyType \<Rightarrow> string" where
  "EmergencyType_value MEDICAL_EMERGENCY = ''medical_emergency''"
| "EmergencyType_value FINANCIAL_EMERGENCY = ''financial_emergency''"
| "EmergencyType_value SECURITY_INCIDENT = ''security_incident''"
| "EmergencyType_value ACCIDENT_INSURANCE = ''accident_insurance''"
| "EmergencyType_value FAMILY_SUPPORT = ''family_support''"
| "EmergencyType_value LEGAL_ASSISTANCE = ''legal_assistance''"
| "EmergencyType_value UNKNOWN = ''unknown''"

type_synonym py_dict = "(string \<times> string) list"

record EmergencyData =
  emergency_id :: string
  user_address :: string
  emergency_type :: EmergencyType
  institution_name :: string
  institution_address :: string
  documents :: "py_dict list"
  requested_amount :: real
  zk_proof :: py_dict
  timestamp_data :: int
  contact_info :: py_dict

record EmergencyAnalysis =
  severity_level :: SeverityLevel
  urgency_score :: int
  recommended_amount :: real
  confidence_score :: real
  risk_factors :: "string list"
  reasoning :: string
  institution_credibility :: real

record ExecutionPlan =
  execution_id_plan :: string
  emergency_data :: EmergencyData
  analysis :: EmergencyAnalysis
  operation_type :: string
  steps :: "py_dict list"
  required_signatures_plan :: int
  timelock_hours :: int
  recipient_address :: string
  amount :: real
  created_at_plan :: int
  status_plan :: ExecutionStatus
  current_phase :: ExecutionPhase

record ExecutionResult =
  success :: bool
  execution_id_result :: string
  transaction_hash :: "string option"
  message :: string
  completed_steps :: "string list"
  failed_step :: "string option"

definition success_result :: "string \<Rightarrow> string \<Rightarrow> string list \<Rightarrow> ExecutionResult" where
  "success_result eid tx done =
     \<lparr>success = True, execution_id_result = eid, transaction_hash = Some tx,
      message = ''Execution completed successfully'', completed_steps = done, failed_step = None\<rparr>"

definition error_result :: "string \<Rightarrow> string \<Rightarrow> string option \<Rightarrow> ExecutionResult" where
  "error_result eid msg failed =
     \<lparr>success = False, execution_id_result = eid, transaction_hash = None,
      message = msg, completed_steps = [], failed_step = failed\<rparr>"

text \<open>
  The coordinator: its registry of plans, and its collector, which is \<open>None\<close> when the
  module of the collector could not be imported.
\<close>

record ExecutionCoordinator =
  executions :: "string \<rightharpoonup> ExecutionPlan"
  signature_collector :: "SignatureCollector option"

subsection \<open>Quorum policy\<close>

text \<open>
  The severity argument is untyped in the source: an object with a \<^verbatim>\<open>value\<close> attribute
  (a member of the enumeration) is read through it, anything else through \<^verbatim>\<open>str\<close>.
\<close>

datatype severity_arg = Enum_member SeverityLevel | Other_object string

fun severity_name :: "severity_arg \<Rightarrow> string" where
  "severity_name (Enum_member l) = SeverityLevel_value l"
| "severity_name (Other_object s) = s"

definition calculate_required_signatures :: "severity_arg \<Rightarrow> int \<Rightarrow> int" where
  "calculate_required_signatures severity urgency =
     (if severity_name severity = ''CRITICAL'' \<or> urgency \<ge> 90 then 1
      else if severity_name severity = ''HIGH'' \<or> urgency \<ge> 75 then 2
      else 3)"

definition calculate_timelock_hours :: "int \<Rightarrow> int" where
  "calculate_timelock_hours urgency =
     (if urgency \<ge> 90 then 1
      else if urgency \<ge> 75 then 3
      else if urgency \<ge> 50 then 6
      else 12)"

definition map_emergency_to_operation_type :: "string \<Rightarrow> string" where
  "map_emergency_to_operation_type ty =
     (case map_of [(''medical_emergency'', ''medical_treatment''),
                   (''financial_emergency'', ''financial_protection''),
                   (''security_incident'', ''security_response''),
                   (''accident_insurance'', ''insurance_claim''),
                   (''family_support'', ''family_assistance''),
                   (''legal_assistance'', ''legal_support'')] ty of
        None \<Rightarrow> ''general_emergency''
      | Some t \<Rightarrow> t)"

text \<open>
  \<^verbatim>\<open>create_execution_plan\<close>; the steps are what the operation manual returned (the
  empty list when there is no manual).
\<close>

definition new_execution_plan :: "int \<Rightarrow> py_dict list \<Rightarrow> EmergencyData \<Rightarrow> EmergencyAnalysis \<Rightarrow> ExecutionPlan" where
  "new_execution_plan now operation_steps ed an =
     \<lparr>execution_id_plan = ''exec_'' @ emergency_id ed @ ''_'' @ str_int (now div 1000000),
      emergency_data = ed,
      analysis = an,
      operation_type = map_emergency_to_operation_type (EmergencyType_value (emergency_type ed)),
      steps = operation_steps,
      required_signatures_plan =
        calculate_required_signatures (Enum_member (severity_level an)) (urgency_score an),
      timelock_hours = calculate_timelock_hours (urgency_score an),
      recipient_address = institution_address ed,
      amount = recommended_amount an,
      created_at_plan = now,
      status_plan = PENDING_exec,
      current_phase = PREPARATION\<rparr>"

definition create_execution_plan ::
  "int \<Rightarrow> py_dict list \<Rightarrow> ExecutionCoordinator \<Rightarrow> EmergencyData \<Rightarrow> EmergencyAnalysis
     \<Rightarrow> ExecutionPlan \<times> ExecutionCoordinator" where
  "create_execution_plan now operation_steps co ed an =
     (let plan = new_execution_plan now operation_steps ed an
      in (plan, co\<lparr>executions := (executions co)(execution_id_plan plan \<mapsto> plan)\<rparr>))"

text \<open>
  The derivation as the specification words it, with the configured threshold for large
  payments as its first argument.
\<close>

definition spec_required_signatures :: "real \<Rightarrow> SeverityLevel \<Rightarrow> int \<Rightarrow> real \<Rightarrow> int" where
  "spec_required_signatures threshold severity urgency amt =
     (let base = (if severity = CRITICAL \<or> urgency \<ge> 90 then 1
                  else if severity = HIGH \<or> urgency \<ge> 75 then 2
                  else (3::int))
      in if amt > threshold then min 5 (base + 1) else base)"

subsection \<open>Settlement\<close>

text \<open>A call of \<^verbatim>\<open>_execute_smart_contract_payment\<close>, with its arguments.\<close>

record payment_call =
  recipient :: string
  paid_amount :: real
  signatures :: "signature_dict list"
  emergency :: EmergencyData

definition execute_smart_contract_payment ::
  "string \<Rightarrow> real \<Rightarrow> signature_dict list \<Rightarrow> EmergencyData \<Rightarrow> string" where
  "execute_smart_contract_payment rcp amt sigs ed = hex_of_prefix (emergency_id ed)"

text \<open>The dictionary that the contract phase returns: success, transaction hash, message.\<close>

datatype contract_dict = Contract_dict (dict_success: bool) (dict_tx_hash: "string option") (dict_message: string)

definition retrieved_signatures :: "ExecutionCoordinator \<Rightarrow> ExecutionPlan \<Rightarrow> signature_dict list" where
  "retrieved_signatures co plan =
     (case signature_collector co of
        Some sc \<Rightarrow> get_collected_signatures sc (execution_id_plan plan)
      | None \<Rightarrow> map Mock_signature [0 ..< nat (required_signatures_plan plan)])"

text \<open>
  \<^verbatim>\<open>_execute_contract_phase\<close>: its dictionary, and the payment calls it made.
\<close>

definition execute_contract_phase :: "ExecutionCoordinator \<Rightarrow> ExecutionPlan \<Rightarrow> contract_dict \<times> payment_call list" where
  "execute_contract_phase co plan =
     (let sigs = retrieved_signatures co plan
      in if int (length sigs) < required_signatures_plan plan then
           (Contract_dict False None
              (''Insufficient signatures: '' @ str_int (int (length sigs)) @ ''/'' @
                 str_int (required_signatures_plan plan)), [])
         else
           (Contract_dict True
              (Some (execute_smart_contract_payment (recipient_address plan) (amount plan) sigs
                       (emergency_data plan)))
              ''Contract execution successful'',
            [\<lparr>recipient = recipient_address plan, paid_amount = amount plan, signatures = sigs,
              emergency = emergency_data plan\<rparr>]))"

subsection \<open>The phases of an execution\<close>

text \<open>
  What an execution meets from outside: the clock readings of its own steps, whether the
  name \<^verbatim>\<open>SignatureStatus\<close> is bound in the module (it is not when the collector's module
  failed to import), and, for each later poll of the signature wait, the operations other
  coroutines performed on the collector since the previous poll, with the clock reading of
  that poll. The registry of plans is touched by this execution only.
\<close>

record exec_schedule =
  t_prepare :: int
  t_start :: int
  t_wait_start :: int
  t_first_poll :: int
  later_polls :: "(collector_op list \<times> int) list"
  SignatureStatus_bound :: bool

definition store_plan :: "ExecutionCoordinator \<Rightarrow> string \<Rightarrow> ExecutionPlan \<Rightarrow> ExecutionCoordinator" where
  "store_plan co eid plan = co\<lparr>executions := (executions co)(eid \<mapsto> plan)\<rparr>"

definition execute_preparation_phase ::
  "web3_env \<Rightarrow> int \<Rightarrow> ExecutionCoordinator \<Rightarrow> ExecutionPlan \<Rightarrow> bool \<times> ExecutionCoordinator" where
  "execute_preparation_phase env now co plan =
     (if steps plan = [] then (False, co)
      else if recipient_address plan = [] then (False, co)
      else if amount plan \<le> 0 then (False, co)
      else (case signature_collector co of
              None \<Rightarrow> (True, co)
            | Some sc \<Rightarrow>
                (True, co\<lparr>signature_collector :=
                   Some (snd (initialize_collection env now sc (execution_id_plan plan)
                               (required_signatures_plan plan) (timelock_hours plan)))\<rparr>)))"

text \<open>
  The polling loop of \<^verbatim>\<open>_execute_signature_collection_phase\<close>. A collection that is
  no longer stored reads as completed; \<open>None\<close> is a loop still waiting when the recorded
  polls end. Elapsed time and the limit are in microseconds.
\<close>

fun wait_for_signatures ::
  "web3_env \<Rightarrow> int \<Rightarrow> int \<Rightarrow> string \<Rightarrow> SignatureCollector \<Rightarrow> int \<Rightarrow> (collector_op list \<times> int) list
     \<Rightarrow> (bool \<times> SignatureCollector) option" where
  "wait_for_signatures env max_wait_time start_time eid sc now later =
     (let status_value = (case get_collection_status sc eid of
                            None \<Rightarrow> ''completed''
                          | Some c \<Rightarrow> SignatureStatus_value (status c))
      in if status_value = ''completed'' then Some (True, sc)
         else if status_value = ''failed'' then Some (False, sc)
         else if now - start_time \<ge> max_wait_time then Some (False, sc)
         else (case later of
                 [] \<Rightarrow> None
               | (ops, now') # later' \<Rightarrow>
                   wait_for_signatures env max_wait_time start_time eid (run_ops env sc ops) now' later'))"

declare wait_for_signatures.simps [simp del]

definition execute_signature_collection_phase ::
  "web3_env \<Rightarrow> exec_schedule \<Rightarrow> ExecutionCoordinator \<Rightarrow> ExecutionPlan
     \<Rightarrow> (bool \<times> ExecutionCoordinator \<times> ExecutionPlan) option" where
  "execute_signature_collection_phase env sched co plan =
     (case signature_collector co of
        None \<Rightarrow>
          if SignatureStatus_bound sched
          then Some (True, co, plan\<lparr>status_plan := READY_TO_EXECUTE\<rparr>)
          else Some (False, co, plan)
      | Some sc \<Rightarrow>
          (case start_collection (t_start sched) sc (execution_id_plan plan) of
             (False, sc') \<Rightarrow> Some (False, co, plan)
           | (True, sc') \<Rightarrow>
               (case wait_for_signatures env (timelock_hours plan * microseconds_per_hour)
                       (t_wait_start sched) (execution_id_plan plan) sc'
                       (t_first_poll sched) (later_polls sched) of
                  None \<Rightarrow> None
                | Some (ok, sc'') \<Rightarrow>
                    Some (ok, co\<lparr>signature_collector := Some sc''\<rparr>,
                          if ok then plan\<lparr>status_plan := READY_TO_EXECUTE\<rparr> else plan))))"

definition verify_transaction_status :: "string \<Rightarrow> bool" where
  "verify_transaction_status tx = True"

definition verify_funds_received :: "string \<Rightarrow> real \<Rightarrow> bool" where
  "verify_funds_received rcp amt = True"

definition execute_verification_phase :: "ExecutionPlan \<Rightarrow> string \<Rightarrow> bool" where
  "execute_verification_phase plan tx =
     (if \<not> verify_transaction_status tx then False
      else if \<not> verify_funds_received (recipient_address plan) (amount plan) then False
      else True)"

definition execute_completion_phase ::
  "ExecutionCoordinator \<Rightarrow> ExecutionPlan \<Rightarrow> bool \<times> ExecutionCoordinator" where
  "execute_completion_phase co plan =
     (case signature_collector co of
        None \<Rightarrow> (False, co)
      | Some sc \<Rightarrow> (True, co\<lparr>signature_collector := Some (cleanup_collection sc (execution_id_plan plan))\<rparr>))"

text \<open>
  \<^verbatim>\<open>execute_plan\<close>: the result, the payment calls made, and the coordinator afterwards.
  The plan is one object, mutated in place; the model carries it along and stores it at
  every return. The handler of the outer \<^verbatim>\<open>try\<close> is met only when the dictionary of the
  contract phase has no transaction hash.
\<close>

definition execute_plan ::
  "web3_env \<Rightarrow> exec_schedule \<Rightarrow> ExecutionCoordinator \<Rightarrow> string
     \<Rightarrow> (ExecutionResult \<times> payment_call list \<times> ExecutionCoordinator) option" where
  "execute_plan env sched co eid =
     (case executions co eid of
        None \<Rightarrow> Some (error_result eid ''Execution plan not found'' None, [], co)
      | Some plan0 \<Rightarrow>
          (let plan1 = plan0\<lparr>status_plan := IN_PROGRESS_exec, current_phase := PREPARATION\<rparr>
           in case execute_preparation_phase env (t_prepare sched) co plan1 of
             (False, co1) \<Rightarrow>
               Some (error_result eid ''Preparation phase failed'' (Some ''preparation''), [],
                     store_plan co1 eid plan1)
           | (True, co1) \<Rightarrow>
               (let plan2 = plan1\<lparr>current_phase := SIGNATURE_COLLECTION,
                                  status_plan := WAITING_SIGNATURES\<rparr>
                in case execute_signature_collection_phase env sched co1 plan2 of
                  None \<Rightarrow> None
                | Some (False, co2, plan3) \<Rightarrow>
                    Some (error_result eid ''Signature collection failed''
                            (Some ''signature_collection''), [], store_plan co2 eid plan3)
                | Some (True, co2, plan3) \<Rightarrow>
                    (let plan4 = plan3\<lparr>current_phase := CONTRACT_EXECUTION,
                                       status_plan := EXECUTING\<rparr>;
                         (contract_result, calls) = execute_contract_phase co2 plan4
                     in if \<not> dict_success contract_result then
                          Some (error_result eid (dict_message contract_result)
                                  (Some ''contract_execution''), calls, store_plan co2 eid plan4)
                        else
                          (case dict_tx_hash contract_result of
                             None \<Rightarrow>
                               Some (error_result eid
                                       (''Execution error: '' @ [CHR 0x27] @ ''tx_hash'' @ [CHR 0x27])
                                       None,
                                     calls, store_plan co2 eid (plan4\<lparr>status_plan := FAILED_exec\<rparr>))
                           | Some tx \<Rightarrow>
                               (let plan5 = plan4\<lparr>current_phase := VERIFICATION\<rparr>
                                in if \<not> execute_verification_phase plan5 tx then
                                     Some (error_result eid ''Verification failed''
                                             (Some ''verification''), calls, store_plan co2 eid plan5)
                                   else
                                     (let plan6 = plan5\<lparr>current_phase := COMPLETION,
                                                        status_plan := COMPLETED_exec\<rparr>;
                                          (completion_result, co3) = execute_completion_phase co2 plan6
                                      in Some (success_result eid tx
                                                 [''preparation'', ''signature_collection'',
                                                  ''contract_execution'', ''verification'',
                                                  ''completion''],
                                               calls, store_plan co3 eid plan6))))))))"

text \<open>The dictionary of \<^verbatim>\<open>get_execution_status\<close>.\<close>

record status_report =
  execution_id_reported :: string
  status_reported :: string
  current_phase_reported :: string
  operation_type_reported :: string
  required_signatures_reported :: int
  collected_signatures_reported :: int
  amount_reported :: real
  recipient_reported :: string
  created_at_reported :: int
  timelock_hours_reported :: int

definition get_execution_status :: "ExecutionCoordinator \<Rightarrow> string \<Rightarrow> status_report option" where
  "get_execution_status co eid =
     (case executions co eid of
        None \<Rightarrow> None
      | Some plan \<Rightarrow>
          (let signature_status = (case signature_collector co of
                                     Some sc \<Rightarrow> get_collection_status sc eid
                                   | None \<Rightarrow> None)
           in Some \<lparr>execution_id_reported = eid,
                    status_reported = ExecutionStatus_value (status_plan plan),
                    current_phase_reported = ExecutionPhase_value (current_phase plan),
                    operation_type_reported = operation_type plan,
                    required_signatures_reported = required_signatures_plan plan,
                    collected_signatures_reported =
                      (case signature_status of Some c \<Rightarrow> collected_count c | None \<Rightarrow> 0),
                    amount_reported = amount plan,
                    recipient_reported = recipient_address plan,
                    created_at_reported = created_at_plan plan,
                    timelock_hours_reported = timelock_hours plan\<rparr>))"

definition cancel_execution :: "ExecutionCoordinator \<Rightarrow> string \<Rightarrow> string \<Rightarrow> bool \<times> ExecutionCoordinator" where
  "cancel_execution co eid reason =
     (case executions co eid of
        None \<Rightarrow> (False, co)
      | Some plan \<Rightarrow>
          if status_plan plan \<in> set [COMPLETED_exec, EXECUTING] then (False, co)
          else
            (let co1 = co\<lparr>executions := (executions co)(eid \<mapsto> plan\<lparr>status_plan := CANCELLED_exec\<rparr>)\<rparr>
             in case signature_collector co1 of
                  None \<Rightarrow> (True, co1)
                | Some sc \<Rightarrow>
                    (True, co1\<lparr>signature_collector := Some (snd (cancel_collection sc eid reason))\<rparr>)))"

section \<open>Guardian response monitor (emergency_coordinator.py)\<close>

datatype GuardianStatus = UNKNOWN_status | NOTIFIED | ACKNOWLEDGED | RESPONDED | OFFLINE

fun GuardianStatus_value :: "GuardianStatus \<Rightarrow> string" where
  "GuardianStatus_value UNKNOWN_status = ''unknown''"
| "GuardianStatus_value NOTIFIED = ''notified''"
| "GuardianStatus_value ACKNOWLEDGED = ''acknowledged''"
| "GuardianStatus_value RESPONDED = ''responded''"
| "GuardianStatus_value OFFLINE = ''offline''"

definition default_timeout_minutes :: int where
  "default_timeout_minutes = 30"

text \<open>
  The end of \<^verbatim>\<open>_notify_guardians_of_emergency\<close>. The dispatch of the notifications either
  raises (the notification coordinator re-raises what it logs) or returns its counts; the
  handler of the enclosing \<^verbatim>\<open>try\<close> swallows the error. The result lists the monitoring
  tasks created, each with its emergency and its timeout in minutes.
\<close>

definition notify_guardians_of_emergency ::
  "string + (nat \<times> nat) \<Rightarrow> EmergencyData \<Rightarrow> EmergencyAnalysis \<Rightarrow> (string \<times> int) list" where
  "notify_guardians_of_emergency dispatch ed an =
     (case dispatch of
        Inl err \<Rightarrow> []
      | Inr results \<Rightarrow>
          if urgency_score an \<ge> 80 then [(emergency_id ed, default_timeout_minutes)] else [])"

text \<open>
  The test \<^verbatim>\<open>responded_count >= total_count * 0.7\<close> on the dictionary of all guardian
  states, in exact arithmetic.
\<close>

type_synonym guardian_states = "(string \<times> GuardianStatus) list"

definition responded_count :: "guardian_states \<Rightarrow> nat" where
  "responded_count gs =
     length (filter (\<lambda>st. GuardianStatus_value st \<in> set [''acknowledged'', ''responded'']) (map snd gs))"

definition sufficient_responses :: "guardian_states \<Rightarrow> bool" where
  "sufficient_responses gs \<longleftrightarrow> 10 * responded_count gs \<ge> 7 * length gs"

text \<open>
  The outcome of a monitoring task: how many times it read the guardian states, whether
  the responses ended its loop, and how many times it called the timeout handler.
\<close>

record monitor_outcome =
  rounds :: nat
  responses_sufficed :: bool
  escalations :: nat

text \<open>
  The loop of \<^verbatim>\<open>_monitor_guardian_responses\<close>. Its arguments are the deadline, the
  successive readings of the clock and the successive dictionaries returned by the
  notification coordinator; each test of the loop and the test after it take one reading.
  \<open>None\<close> is a task that is still running when the recorded readings end.
\<close>

fun monitor_loop :: "int \<Rightarrow> nat \<Rightarrow> int list \<Rightarrow> guardian_states list \<Rightarrow> monitor_outcome option" where
  "monitor_loop timeout_time n [] reads = None"
| "monitor_loop timeout_time n (now # clock) reads =
     (if now < timeout_time then
        (case reads of
           [] \<Rightarrow> None
         | gs # reads' \<Rightarrow>
             if sufficient_responses gs then
               (case clock of
                  [] \<Rightarrow> None
                | now' # _ \<Rightarrow>
                    Some \<lparr>rounds = Suc n, responses_sufficed = True,
                          escalations = (if now' \<ge> timeout_time then 1 else 0)\<rparr>)
             else monitor_loop timeout_time (Suc n) clock reads')
      else
        (case clock of
           [] \<Rightarrow> None
         | now' # _ \<Rightarrow>
             Some \<lparr>rounds = n, responses_sufficed = False,
                   escalations = (if now' \<ge> timeout_time then 1 else 0)\<rparr>))"

definition microseconds_per_minute :: int where
  "microseconds_per_minute = 60000000"

definition monitor_guardian_responses ::
  "int \<Rightarrow> int list \<Rightarrow> guardian_states list \<Rightarrow> monitor_outcome option" where
  "monitor_guardian_responses timeout_minutes clock reads =
     (case clock of
        [] \<Rightarrow> None
      | start_time # clock' \<Rightarrow>
          monitor_loop (start_time + timeout_minutes * microseconds_per_minute) 0 clock' reads)"

section \<open>Test data\<close>

text \<open>
  The emergency and the analysis of test_execution_coordinator.py (free texts shortened),
  and a one-step operation manual.
\<close>

definition test_emergency_data :: EmergencyData where
  "test_emergency_data =
     \<lparr>emergency_id = ''emerg_001'',
      user_address = ''0x742d35Cc6634C0532925a3b8D4C9db96590c6C87'',
      emergency_type = MEDICAL_EMERGENCY,
      institution_name = ''hospital'',
      institution_address = ''0x8ba1f109551bD432803012645Hac136c22C177e9'',
      documents = [],
      requested_amount = 50,
      zk_proof = [],
      timestamp_data = 0,
      contact_info = [(''phone'', ''123-456-7890''), (''email'', ''test@example.com'')]\<rparr>"

definition test_analysis :: EmergencyAnalysis where
  "test_analysis =
     \<lparr>severity_level = HIGH,
      urgency_score = 85,
      recommended_amount = 45.5,
      confidence_score = 0.92,
      risk_factors = [''urgent''],
      reasoning = ''high risk'',
      institution_credibility = 0.88\<rparr>"

definition test_steps :: "py_dict list" where
  "test_steps = [ [(''name'', ''verify_identity'')] ]"

text \<open>
  A coordinator as constructed, and a plan registered directly that asks for more
  signatures than there are stand-in guardians, with a schedule of its execution: the
  first poll ten seconds after the start, and the poll after the hour of its time lock,
  a round of the collector's monitor having run just before (the polls in between see
  what the first one sees).
\<close>

definition new_ExecutionCoordinator :: ExecutionCoordinator where
  "new_ExecutionCoordinator = \<lparr>executions = Map.empty, signature_collector = Some new_SignatureCollector\<rparr>"

definition test_plan_8 :: ExecutionPlan where
  "test_plan_8 =
     (new_execution_plan 0 test_steps test_emergency_data test_analysis)
       \<lparr>required_signatures_plan := 8, timelock_hours := 1\<rparr>"

definition test_schedule :: exec_schedule where
  "test_schedule =
     \<lparr>t_prepare = 0, t_start = 1000000, t_wait_start = 10000000, t_first_poll = 10000000,
      later_polls = [([Op_monitor_round 3600000001 ''exec_emerg_001_0''], 3610000000)],
      SignatureStatus_bound = True\<rparr>"

text \<open>What \<^verbatim>\<open>get_execution_status\<close> reports after an execution, and the step it failed at.\<close>

definition reported_status_after ::
  "(ExecutionResult \<times> payment_call list \<times> ExecutionCoordinator) option \<Rightarrow> string \<Rightarrow> string option" where
  "reported_status_after r eid =
     (case r of
        None \<Rightarrow> None
      | Some (res, calls, co) \<Rightarrow> map_option status_reported (get_execution_status co eid))"

definition failed_step_of ::
  "(ExecutionResult \<times> payment_call list \<times> ExecutionCoordinator) option \<Rightarrow> string option" where
  "failed_step_of r = (case r of None \<Rightarrow> None | Some (res, calls, co) \<Rightarrow> failed_step res)"

section \<open>Properties\<close>

definition append_signature :: "GuardianSignature \<Rightarrow> SignatureCollection \<Rightarrow> SignatureCollection" where
  "append_signature s c =
     (let c' = c\<lparr>collected_signatures := collected_signatures c @ [s]\<rparr>
      in if is_complete c' then c'\<lparr>status := COMPLETED\<rparr> else c')"

subsection \<open>Each step keeps the invariants\<close>

lemma quorum_ok_append: "quorum_ok c \<Longrightarrow> verified s \<Longrightarrow> quorum_ok (append_signature s c)"
  by (auto simp: quorum_ok_def append_signature_def is_complete_def Let_def collected_count_def)

lemma all_verified_append: "all_verified c \<Longrightarrow> verified s \<Longrightarrow> all_verified (append_signature s c)"
  by (simp add: all_verified_def append_signature_def Let_def)

lemma simulate_append:
  "simulate_guardian_signature now g c =
     append_signature \<lparr>guardian_address = g, signature = hex_of_prefix g, signature_type = ETHEREUM,
       timestamp = now, message_hash_sig = message_hash c, verified = True\<rparr> c"
  by (simp add: simulate_guardian_signature_def append_signature_def Let_def)

lemma add_signature_append:
  "add_signature env now sc eid g sig ty =
     (case collections sc eid of
        None \<Rightarrow> (False, sc)
      | Some c \<Rightarrow>
          if is_expired now c \<or> (\<exists>s \<in> set (collected_signatures c). guardian_address s = g)
             \<or> \<not> verify_signature env g sig (message_hash c) ty
          then (False, sc)
          else (True, sc\<lparr>collections := (collections sc)(eid \<mapsto>
                  append_signature \<lparr>guardian_address = g, signature = sig, signature_type = ty,
                    timestamp = now, message_hash_sig = message_hash c, verified = True\<rparr> c)\<rparr>))"
  by (simp add: add_signature_def append_signature_def Let_def split: option.splits)

lemma foldl_simulate_keeps:
  assumes step: "\<And>g c. P c \<Longrightarrow> P (simulate_guardian_signature now g c)"
  shows "P c \<Longrightarrow> P (foldl (\<lambda>c g. simulate_guardian_signature now g c) c gs)"
  by (induction gs arbitrary: c) (simp_all add: step)

lemma quorum_ok_monitor: "quorum_ok c \<Longrightarrow> quorum_ok (monitor_collection_round now c)"
  by (simp add: quorum_ok_def monitor_collection_round_def is_complete_def collected_count_def)

lemma all_verified_monitor: "all_verified c \<Longrightarrow> all_verified (monitor_collection_round now c)"
  by (simp add: all_verified_def monitor_collection_round_def)

lemma every_collection_update:
  assumes "every_collection P sc" and "\<And>c. P c \<Longrightarrow> P (f c)"
  shows "every_collection P (update_collection f sc eid)"
  using assms by (auto simp: every_collection_def update_collection_def split: option.splits)

lemma every_collection_store:
  assumes "every_collection P sc" and "P c"
  shows "every_collection P (sc\<lparr>collections := (collections sc)(eid \<mapsto> c)\<rparr>)"
  using assms by (auto simp: every_collection_def)

lemma start_collection_update:
  "snd (start_collection now sc eid) =
     update_collection (\<lambda>c. send_signature_requests now (mock_guardians sc) (c\<lparr>status := IN_PROGRESS\<rparr>)) sc eid"
  by (simp add: start_collection_def update_collection_def split: option.splits)

lemma cancel_collection_update:
  "snd (cancel_collection sc eid reason) = update_collection (\<lambda>c. c\<lparr>status := CANCELLED\<rparr>) sc eid"
  by (simp add: cancel_collection_def update_collection_def split: option.splits)

lemma every_collection_add_signature:
  assumes "every_collection P sc" and "\<And>s c. P c \<Longrightarrow> verified s \<Longrightarrow> P (append_signature s c)"
  shows "every_collection P (snd (add_signature env now sc eid g sig ty))"
proof (cases "collections sc eid")
  case None
  with assms(1) show ?thesis by (simp add: add_signature_append)
next
  case (Some c)
  with assms(1) have "P c" by (simp add: every_collection_def)
  then have "every_collection P (sc\<lparr>collections := (collections sc)(eid \<mapsto> append_signature s c)\<rparr>)"
    if "verified s" for s
    using assms that by (intro every_collection_store) simp_all
  with assms(1) Some show ?thesis
    by (simp add: add_signature_append)
qed

lemma every_collection_cleanup:
  "every_collection P sc \<Longrightarrow> every_collection P (cleanup_collection sc eid)"
  by (auto simp: every_collection_def cleanup_collection_def split: if_splits)

lemma every_collection_apply_op:
  assumes sc: "every_collection P sc"
    and fresh: "\<And>c. collected_signatures c = [] \<Longrightarrow> status c = PENDING \<Longrightarrow> P c"
    and app: "\<And>s c. P c \<Longrightarrow> verified s \<Longrightarrow> P (append_signature s c)"
    and mon: "\<And>now c. P c \<Longrightarrow> P (monitor_collection_round now c)"
    and st: "\<And>v c. P c \<Longrightarrow> v \<noteq> COMPLETED \<Longrightarrow> P (c\<lparr>status := v\<rparr>)"
  shows "every_collection P (apply_op env sc op)"
proof (cases op)
  case (Op_initialize now eid r h)
  show ?thesis
    unfolding Op_initialize apply_op.simps initialize_collection_def Let_def snd_conv
    by (rule every_collection_store [OF sc]) (simp add: fresh)
next
  case (Op_start_collection now eid)
  have sim: "P (simulate_guardian_signature now g c)" if "P c" for g c
    using that by (simp add: simulate_append app)
  show ?thesis
    unfolding Op_start_collection apply_op.simps start_collection_update send_signature_requests_def
    by (rule every_collection_update [OF sc], rule foldl_simulate_keeps) (simp_all add: sim st)
next
  case (Op_in_progress eid)
  show ?thesis
    unfolding Op_in_progress apply_op.simps
    by (rule every_collection_update [OF sc]) (simp add: st)
next
  case (Op_simulate now eid g)
  show ?thesis
    unfolding Op_simulate apply_op.simps
    by (rule every_collection_update [OF sc]) (simp add: simulate_append app)
next
  case (Op_monitor_round now eid)
  show ?thesis
    unfolding Op_monitor_round apply_op.simps
    by (rule every_collection_update [OF sc]) (simp add: mon)
next
  case (Op_add_signature now eid g sig ty)
  show ?thesis
    unfolding Op_add_signature apply_op.simps
    by (rule every_collection_add_signature [OF sc]) (simp add: app)
next
  case (Op_cancel eid reason)
  show ?thesis
    unfolding Op_cancel apply_op.simps cancel_collection_update
    by (rule every_collection_update [OF sc]) (simp add: st)
next
  case (Op_cleanup eid)
  show ?thesis
    unfolding Op_cleanup apply_op.simps
    by (rule every_collection_cleanup [OF sc])
qed

lemma quorum_ok_apply_op:
  "every_collection quorum_ok sc \<Longrightarrow> every_collection quorum_ok (apply_op env sc op)"
  by (rule every_collection_apply_op)
    (simp_all add: quorum_ok_append quorum_ok_monitor, simp_all add: quorum_ok_def)

lemma all_verified_apply_op:
  "every_collection all_verified sc \<Longrightarrow> every_collection all_verified (apply_op env sc op)"
  by (rule every_collection_apply_op)
    (simp_all add: all_verified_append all_verified_monitor, simp_all add: all_verified_def)

lemma quorum_ok_run_ops:
  "every_collection quorum_ok sc \<Longrightarrow> every_collection quorum_ok (run_ops env sc ops)"
  unfolding run_ops_def
  by (induction ops arbitrary: sc) (simp_all add: quorum_ok_apply_op)

lemma all_verified_run_ops:
  "every_collection all_verified sc \<Longrightarrow> every_collection all_verified (run_ops env sc ops)"
  unfolding run_ops_def
  by (induction ops arbitrary: sc) (simp_all add: all_verified_apply_op)

lemma every_collection_new: "every_collection P new_SignatureCollector"
  by (simp add: every_collection_def new_SignatureCollector_def)

subsection \<open>Quorum and verified entries of a collection\<close>

text \<open>
  Claim C3. Starting from a collector whose collections respect the quorum (a new collector
  has none), whatever operations run in whatever order, a collection whose status is
  \<open>COMPLETED\<close> holds at least \<open>required_signatures\<close> entries marked verified.
\<close>

theorem completed_only_with_quorum:
  assumes "every_collection quorum_ok sc"
    and "collections (run_ops env sc ops) eid = Some c"
    and "status c = COMPLETED"
  shows "required_signatures c \<le> collected_count c"
  using quorum_ok_run_ops [OF assms(1), of env ops] assms(2,3)
  by (simp add: every_collection_def quorum_ok_def)

lemmas collector_eval =
  run_ops_def new_SignatureCollector_def initialize_collection_def update_collection_def
  add_signature_append append_signature_def is_complete_def is_expired_def collected_count_def
  verify_signature_def mock_env_def microseconds_per_hour_def Let_def cancel_collection_def
  get_collected_signatures_def get_collection_status_def

theorem completed_only_with_quorum_witness:
  "every_collection quorum_ok new_SignatureCollector \<and>
   (\<exists>c. collections (run_ops mock_env new_SignatureCollector
            [Op_initialize 0 ''e'' 1 1, Op_in_progress ''e'',
             Op_add_signature 5 ''e'' ''g'' ''s'' ETHEREUM]) ''e'' = Some c \<and>
        status c = COMPLETED \<and> required_signatures c \<le> collected_count c)"
proof -
  let ?sc = "run_ops mock_env new_SignatureCollector
            [Op_initialize 0 ''e'' 1 1, Op_in_progress ''e'',
             Op_add_signature 5 ''e'' ''g'' ''s'' ETHEREUM]"
  have inv: "every_collection quorum_ok new_SignatureCollector"
    by (rule every_collection_new)
  obtain c where c: "collections ?sc ''e'' = Some c" and st: "status c = COMPLETED"
    by (simp add: collector_eval)
  from completed_only_with_quorum [OF inv c st] inv c st show ?thesis
    by blast
qed

text \<open>
  Claim C10. Starting from a collector whose stored signatures are all marked verified (a
  new collector has none), after any operations every stored signature is marked verified,
  the count of verified entries is the length of the list, and
  \<^verbatim>\<open>get_collected_signatures\<close> returns every stored entry.
\<close>

theorem stored_signatures_all_verified:
  assumes "every_collection all_verified sc"
    and "collections (run_ops env sc ops) eid = Some c"
  shows "(\<forall>s \<in> set (collected_signatures c). verified s) \<and>
         collected_count c = int (length (collected_signatures c)) \<and>
         get_collected_signatures (run_ops env sc ops) eid = map Sig_to_dict (collected_signatures c)"
proof -
  from all_verified_run_ops [OF assms(1), of env ops] assms(2)
  have v: "list_all verified (collected_signatures c)"
    by (simp add: every_collection_def all_verified_def)
  then have f: "filter verified (collected_signatures c) = collected_signatures c"
    by (simp add: list_all_iff)
  from v f assms(2) show ?thesis
    by (simp add: list_all_iff collected_count_def get_collected_signatures_def)
qed

theorem stored_signatures_all_verified_witness:
  "every_collection all_verified new_SignatureCollector \<and>
   (\<exists>c. collections (run_ops mock_env new_SignatureCollector
            [Op_initialize 0 ''e'' 2 1, Op_start_collection 1 ''e'',
             Op_add_signature 5 ''e'' ''g'' ''s'' ETHEREUM]) ''e'' = Some c \<and>
        length (collected_signatures c) = 5 \<and>
        collected_count c = int (length (collected_signatures c)) \<and>
        get_collected_signatures (run_ops mock_env new_SignatureCollector
            [Op_initialize 0 ''e'' 2 1, Op_start_collection 1 ''e'',
             Op_add_signature 5 ''e'' ''g'' ''s'' ETHEREUM]) ''e'' = map Sig_to_dict (collected_signatures c))"
proof -
  let ?sc = "run_ops mock_env new_SignatureCollector
            [Op_initialize 0 ''e'' 2 1, Op_start_collection 1 ''e'',
             Op_add_signature 5 ''e'' ''g'' ''s'' ETHEREUM]"
  have inv: "every_collection all_verified new_SignatureCollector"
    by (rule every_collection_new)
  obtain c where c: "collections ?sc ''e'' = Some c" and n: "length (collected_signatures c) = 5"
    by (simp add: collector_eval start_collection_def send_signature_requests_def py_slice_to_def
        simulate_append init_mock_guardians_def)
  from stored_signatures_all_verified [OF inv c] inv c n show ?thesis
    by blast
qed


subsection \<open>Submitting a signature\<close>

text \<open>
  Claim C4. \<^verbatim>\<open>add_signature\<close> fails, leaving the collector as it was, exactly when
  there is no collection for the execution, or the clock is past its expiry time, or a
  signature of the guardian is already stored, or the verification of the signature against
  the stored message hash fails. In every other case it succeeds, appends exactly one entry
  for the guardian, and sets the status to \<open>COMPLETED\<close> if the verified count now meets
  \<open>required_signatures\<close> (the status is kept otherwise).
\<close>

theorem add_signature_outcome:
  assumes "add_signature env now sc eid g sig ty = (ok, sc')"
  shows "(\<not> ok \<longleftrightarrow>
            collections sc eid = None \<or>
            (\<exists>c. collections sc eid = Some c \<and>
                 (now > expires_at c \<or>
                  g \<in> guardian_address ` set (collected_signatures c) \<or>
                  \<not> verify_signature env g sig (message_hash c) ty))) \<and>
         (\<not> ok \<longrightarrow> sc' = sc) \<and>
         (ok \<longrightarrow>
            (\<exists>c c1. collections sc eid = Some c \<and>
               c1 = c\<lparr>collected_signatures := collected_signatures c @
                        [\<lparr>guardian_address = g, signature = sig, signature_type = ty,
                          timestamp = now, message_hash_sig = message_hash c, verified = True\<rparr>]\<rparr> \<and>
               sc' = sc\<lparr>collections := (collections sc)(eid \<mapsto>
                        c1\<lparr>status := (if required_signatures c \<le> collected_count c1
                                        then COMPLETED else status c)\<rparr>)\<rparr>))"
proof (cases "collections sc eid")
  case None
  with assms show ?thesis by (auto simp: add_signature_def)
next
  case (Some c)
  show ?thesis
  proof (cases "is_expired now c \<or> (\<exists>s \<in> set (collected_signatures c). guardian_address s = g)
      \<or> \<not> verify_signature env g sig (message_hash c) ty")
    case True
    with assms Some have "\<not> ok" "sc' = sc"
      by (auto simp: add_signature_append)
    with True Some show ?thesis
      by (auto simp: is_expired_def)
  next
    case False
    with assms Some have ok: "ok" and sc': "sc' = sc\<lparr>collections := (collections sc)(eid \<mapsto>
        append_signature \<lparr>guardian_address = g, signature = sig, signature_type = ty,
          timestamp = now, message_hash_sig = message_hash c, verified = True\<rparr> c)\<rparr>"
      by (auto simp: add_signature_append)
    from False Some ok sc' show ?thesis
      by (auto simp: is_expired_def append_signature_def Let_def is_complete_def)
  qed
qed

theorem add_signature_outcome_witness:
  "fst (add_signature mock_env 5
          (run_ops mock_env new_SignatureCollector [Op_initialize 0 ''e'' 1 1]) ''e'' ''g'' ''s'' ETHEREUM) \<and>
   (\<exists>c c1. collections (run_ops mock_env new_SignatureCollector [Op_initialize 0 ''e'' 1 1]) ''e'' = Some c \<and>
      c1 = c\<lparr>collected_signatures := collected_signatures c @
               [\<lparr>guardian_address = ''g'', signature = ''s'', signature_type = ETHEREUM,
                 timestamp = 5, message_hash_sig = message_hash c, verified = True\<rparr>]\<rparr> \<and>
      snd (add_signature mock_env 5
          (run_ops mock_env new_SignatureCollector [Op_initialize 0 ''e'' 1 1]) ''e'' ''g'' ''s'' ETHEREUM) =
        (run_ops mock_env new_SignatureCollector [Op_initialize 0 ''e'' 1 1])
          \<lparr>collections := (collections (run_ops mock_env new_SignatureCollector [Op_initialize 0 ''e'' 1 1]))
             (''e'' \<mapsto> c1\<lparr>status := (if required_signatures c \<le> collected_count c1
                                         then COMPLETED else status c)\<rparr>)\<rparr>)"
proof -
  let ?sc = "run_ops mock_env new_SignatureCollector [Op_initialize 0 ''e'' 1 1]"
  let ?r = "add_signature mock_env 5 ?sc ''e'' ''g'' ''s'' ETHEREUM"
  have ok: "fst ?r" by (simp add: collector_eval)
  then have h: "?r = (True, snd ?r)" by (simp add: prod_eq_iff)
  note w = add_signature_outcome [OF h, THEN conjunct2, THEN conjunct2, rule_format, OF TrueI]
  from ok w show ?thesis by (rule conjI)
qed

text \<open>
  Claim C5, as stated, fails: a collection that is \<open>COMPLETED\<close> accepts a further
  signature and is set to \<open>CANCELLED\<close> by a cancel, and a cancelled collection is
  completed by a submit.
\<close>

theorem terminal_collection_mutable:
  "map_option status (get_collection_status (run_ops mock_env new_SignatureCollector
       [Op_initialize 0 ''e'' 1 1, Op_in_progress ''e'',
        Op_add_signature 5 ''e'' ''g1'' ''s1'' ETHEREUM]) ''e'') = Some COMPLETED \<and>
   length (get_collected_signatures (run_ops mock_env new_SignatureCollector
       [Op_initialize 0 ''e'' 1 1, Op_in_progress ''e'',
        Op_add_signature 5 ''e'' ''g1'' ''s1'' ETHEREUM]) ''e'') = 1 \<and>
   fst (add_signature mock_env 6 (run_ops mock_env new_SignatureCollector
       [Op_initialize 0 ''e'' 1 1, Op_in_progress ''e'',
        Op_add_signature 5 ''e'' ''g1'' ''s1'' ETHEREUM]) ''e'' ''g2'' ''s2'' ETHEREUM) \<and>
   length (get_collected_signatures (snd (add_signature mock_env 6 (run_ops mock_env new_SignatureCollector
       [Op_initialize 0 ''e'' 1 1, Op_in_progress ''e'',
        Op_add_signature 5 ''e'' ''g1'' ''s1'' ETHEREUM]) ''e'' ''g2'' ''s2'' ETHEREUM)) ''e'') = 2 \<and>
   map_option status (get_collection_status (snd (cancel_collection (run_ops mock_env new_SignatureCollector
       [Op_initialize 0 ''e'' 1 1, Op_in_progress ''e'',
        Op_add_signature 5 ''e'' ''g1'' ''s1'' ETHEREUM]) ''e'' ''r'')) ''e'') = Some CANCELLED \<and>
   map_option status (get_collection_status (run_ops mock_env new_SignatureCollector
       [Op_initialize 0 ''e'' 1 1, Op_in_progress ''e'', Op_cancel ''e'' ''r'',
        Op_add_signature 5 ''e'' ''g1'' ''s1'' ETHEREUM]) ''e'') = Some COMPLETED"
  by (simp add: collector_eval)

text \<open>
  Claim C5, amended. The status alone does not freeze a collection. Once the expiry time
  has passed, a submit fails and changes nothing; a cancel changes no field but the status,
  which it sets to \<open>CANCELLED\<close>, so a cancelled collection is unchanged by a cancel; and a
  submit never removes or alters a stored signature.
\<close>

theorem terminal_collection_changes:
  assumes "collections sc eid = Some c"
  shows "(now > expires_at c \<longrightarrow> add_signature env now sc eid g sig ty = (False, sc)) \<and>
         cancel_collection sc eid reason =
           (True, sc\<lparr>collections := (collections sc)(eid \<mapsto> c\<lparr>status := CANCELLED\<rparr>)\<rparr>) \<and>
         (status c = CANCELLED \<longrightarrow> cancel_collection sc eid reason = (True, sc)) \<and>
         (\<forall>c'. collections (snd (add_signature env now sc eid g sig ty)) eid = Some c' \<longrightarrow>
               take (length (collected_signatures c)) (collected_signatures c') = collected_signatures c)"
proof -
  have triv: "sc\<lparr>collections := (collections sc)(eid \<mapsto> c)\<rparr> = sc"
    using assms by (simp add: map_upd_triv)
  have a: "now > expires_at c \<longrightarrow> add_signature env now sc eid g sig ty = (False, sc)"
    using assms by (simp add: add_signature_append is_expired_def)
  have b: "cancel_collection sc eid reason =
      (True, sc\<lparr>collections := (collections sc)(eid \<mapsto> c\<lparr>status := CANCELLED\<rparr>)\<rparr>)"
    using assms by (simp add: cancel_collection_def)
  have c: "cancel_collection sc eid reason = (True, sc)" if "status c = CANCELLED"
  proof -
    from that have "c\<lparr>status := CANCELLED\<rparr> = c" by simp
    with b triv show ?thesis by simp
  qed
  have d: "take (length (collected_signatures c)) (collected_signatures c') = collected_signatures c"
    if "collections (snd (add_signature env now sc eid g sig ty)) eid = Some c'" for c'
    using assms that
    by (auto simp: add_signature_append append_signature_def Let_def split: if_splits)
  from a b c d show ?thesis by blast
qed

theorem terminal_collection_changes_witness:
  "add_signature mock_env 3600000001
     (run_ops mock_env new_SignatureCollector [Op_initialize 0 ''e'' 1 1, Op_cancel ''e'' ''r''])
     ''e'' ''g'' ''s'' ETHEREUM =
     (False, run_ops mock_env new_SignatureCollector [Op_initialize 0 ''e'' 1 1, Op_cancel ''e'' ''r'']) \<and>
   cancel_collection
     (run_ops mock_env new_SignatureCollector [Op_initialize 0 ''e'' 1 1, Op_cancel ''e'' ''r''])
     ''e'' ''again'' =
     (True, run_ops mock_env new_SignatureCollector [Op_initialize 0 ''e'' 1 1, Op_cancel ''e'' ''r''])"
proof -
  let ?sc = "run_ops mock_env new_SignatureCollector [Op_initialize 0 ''e'' 1 1, Op_cancel ''e'' ''r'']"
  obtain c where c: "collections ?sc ''e'' = Some c"
    and e: "3600000001 > expires_at c" and st: "status c = CANCELLED"
    by (simp add: collector_eval)
  from terminal_collection_changes [OF c, of 3600000001 mock_env "''g''" "''s''" ETHEREUM "''again''"] e st
  show ?thesis by blast
qed


subsection \<open>Settlement only with quorum\<close>

text \<open>
  Claim C1. With the verified signatures that the collector returns for the execution: if
  they are fewer than the plan's \<open>required_signatures\<close>, the contract phase returns a
  failure whose message begins with \<open>Insufficient signatures\<close> and calls no payment;
  otherwise it calls the payment once, with the plan's recipient, amount and emergency and
  the retrieved signatures.
\<close>

theorem payment_only_with_quorum:
  assumes "signature_collector co = Some sc"
    and "sigs = get_collected_signatures sc (execution_id_plan plan)"
  shows "(int (length sigs) < required_signatures_plan plan \<longrightarrow>
            \<not> dict_success (fst (execute_contract_phase co plan)) \<and>
            take 23 (dict_message (fst (execute_contract_phase co plan))) = ''Insufficient signatures'' \<and>
            snd (execute_contract_phase co plan) = []) \<and>
         (\<not> int (length sigs) < required_signatures_plan plan \<longrightarrow>
            dict_success (fst (execute_contract_phase co plan)) \<and>
            snd (execute_contract_phase co plan) =
              [\<lparr>recipient = recipient_address plan, paid_amount = amount plan,
                signatures = sigs, emergency = emergency_data plan\<rparr>])"
  using assms by (simp add: execute_contract_phase_def retrieved_signatures_def Let_def)

lemmas plan_eval =
  new_execution_plan_def test_emergency_data_def test_analysis_def test_steps_def
  calculate_required_signatures_def calculate_timelock_hours_def

theorem payment_only_with_quorum_witness:
  "snd (execute_contract_phase
         \<lparr>executions = Map.empty,
          signature_collector = Some (run_ops mock_env new_SignatureCollector
            [Op_initialize 0 ''exec_emerg_001_0'' 2 3, Op_in_progress ''exec_emerg_001_0'',
             Op_add_signature 5 ''exec_emerg_001_0'' ''g1'' ''s1'' ETHEREUM])\<rparr>
         (new_execution_plan 0 test_steps test_emergency_data test_analysis)) = [] \<and>
   map recipient (snd (execute_contract_phase
         \<lparr>executions = Map.empty,
          signature_collector = Some (run_ops mock_env new_SignatureCollector
            [Op_initialize 0 ''exec_emerg_001_0'' 2 3, Op_in_progress ''exec_emerg_001_0'',
             Op_add_signature 5 ''exec_emerg_001_0'' ''g1'' ''s1'' ETHEREUM,
             Op_add_signature 6 ''exec_emerg_001_0'' ''g2'' ''s2'' ETHEREUM])\<rparr>
         (new_execution_plan 0 test_steps test_emergency_data test_analysis))) =
     [''0x8ba1f109551bD432803012645Hac136c22C177e9'']"
proof -
  let ?plan = "new_execution_plan 0 test_steps test_emergency_data test_analysis"
  let ?sc1 = "run_ops mock_env new_SignatureCollector
            [Op_initialize 0 ''exec_emerg_001_0'' 2 3, Op_in_progress ''exec_emerg_001_0'',
             Op_add_signature 5 ''exec_emerg_001_0'' ''g1'' ''s1'' ETHEREUM]"
  let ?sc2 = "run_ops mock_env new_SignatureCollector
            [Op_initialize 0 ''exec_emerg_001_0'' 2 3, Op_in_progress ''exec_emerg_001_0'',
             Op_add_signature 5 ''exec_emerg_001_0'' ''g1'' ''s1'' ETHEREUM,
             Op_add_signature 6 ''exec_emerg_001_0'' ''g2'' ''s2'' ETHEREUM]"
  have id: "execution_id_plan ?plan = ''exec_emerg_001_0''"
    by (simp add: plan_eval str_int_def str_nat.simps digit_char_def)
  have req: "required_signatures_plan ?plan = 2"
    by (simp add: plan_eval)
  have n1: "int (length (get_collected_signatures ?sc1 (execution_id_plan ?plan))) < required_signatures_plan ?plan"
    unfolding id req by (simp add: collector_eval)
  have n2: "\<not> int (length (get_collected_signatures ?sc2 (execution_id_plan ?plan))) < required_signatures_plan ?plan"
    unfolding id req by (simp add: collector_eval)
  have rcp: "recipient_address ?plan = ''0x8ba1f109551bD432803012645Hac136c22C177e9''"
    by (simp add: plan_eval)
  from payment_only_with_quorum [of "\<lparr>executions = Map.empty, signature_collector = Some ?sc1\<rparr>" ?sc1 _ ?plan, OF _ refl] n1
  have a: "snd (execute_contract_phase \<lparr>executions = Map.empty, signature_collector = Some ?sc1\<rparr> ?plan) = []"
    by simp
  from payment_only_with_quorum [of "\<lparr>executions = Map.empty, signature_collector = Some ?sc2\<rparr>" ?sc2 _ ?plan, OF _ refl] n2
  have b: "map recipient (snd (execute_contract_phase \<lparr>executions = Map.empty, signature_collector = Some ?sc2\<rparr> ?plan)) =
     [recipient_address ?plan]"
    by simp
  from a b rcp show ?thesis by simp
qed


subsection \<open>Quorum policy\<close>

text \<open>
  Claim C2, as stated, fails: the code takes no account of the amount. For low severity,
  urgency 10 and an amount of 1000 over a threshold of 100 it requires 3 signatures, where
  the specification's derivation gives 4.
\<close>

theorem required_signatures_amount_counterexample:
  "calculate_required_signatures (Enum_member LOW) 10 = 3 \<and>
   spec_required_signatures 100 LOW 10 1000 = 4"
  by (simp add: calculate_required_signatures_def spec_required_signatures_def)

text \<open>
  For a member of the enumeration the comparisons of the name with \<open>CRITICAL\<close> and
  \<open>HIGH\<close> never hold, the values being lower case: the urgency alone decides.
\<close>

lemma required_signatures_of_enum_member:
  "calculate_required_signatures (Enum_member l) u = (if u \<ge> 90 then 1 else if u \<ge> 75 then 2 else 3)"
  by (cases l) (simp_all add: calculate_required_signatures_def)

text \<open>
  Claim C2, amended. The required count of a new plan does not depend on any amount (no
  increase for large payments, no cap): it is 1 when the urgency is at least 90; 2 when the
  urgency is from 75 to 89 and the severity is not critical; 3 when the urgency is below 75
  and the severity is low or medium; and always 1, 2 or 3.
\<close>

theorem required_signatures_ignore_amount:
  assumes "required_signatures_plan (new_execution_plan now stps ed an) = r"
  shows "(urgency_score an \<ge> 90 \<longrightarrow> r = 1) \<and>
         (75 \<le> urgency_score an \<and> urgency_score an < 90 \<and> severity_level an \<noteq> CRITICAL \<longrightarrow> r = 2) \<and>
         (urgency_score an < 75 \<and> severity_level an \<in> {LOW, MEDIUM} \<longrightarrow> r = 3) \<and>
         r \<in> {1, 2, 3} \<and>
         required_signatures_plan
           (new_execution_plan now stps (ed\<lparr>requested_amount := x\<rparr>) (an\<lparr>recommended_amount := y\<rparr>)) = r"
  using assms by (auto simp: new_execution_plan_def required_signatures_of_enum_member split: if_splits)

theorem required_signatures_ignore_amount_witness:
  "required_signatures_plan (new_execution_plan 0 test_steps test_emergency_data test_analysis) = 2 \<and>
   required_signatures_plan
     (new_execution_plan 0 test_steps (test_emergency_data\<lparr>requested_amount := 1000000\<rparr>)
        (test_analysis\<lparr>recommended_amount := 1000000\<rparr>)) = 2"
proof -
  have r: "required_signatures_plan (new_execution_plan 0 test_steps test_emergency_data test_analysis) = 2"
    by (simp add: plan_eval)
  from required_signatures_ignore_amount [OF r, of 1000000 1000000] r show ?thesis
    by blast
qed


text \<open>
  Claim C8. The time lock is 1 hour for an urgency of at least 90, 3 from 75, 6 from 50 and
  12 below, hence one of 1, 3, 6, 12; and the time lock and the required count of a new
  plan are functions of severity and urgency alone: two plans made at any times, by any
  coordinators, for any emergencies agree on both when their analyses agree on these two.
\<close>

theorem timelock_hours_derivation:
  "(90 \<le> u \<longrightarrow> calculate_timelock_hours u = 1) \<and>
   (75 \<le> u \<and> u < 90 \<longrightarrow> calculate_timelock_hours u = 3) \<and>
   (50 \<le> u \<and> u < 75 \<longrightarrow> calculate_timelock_hours u = 6) \<and>
   (u < 50 \<longrightarrow> calculate_timelock_hours u = 12) \<and>
   calculate_timelock_hours u \<in> {1, 3, 6, 12} \<and>
   (severity_level an = severity_level an' \<and> urgency_score an = urgency_score an' \<longrightarrow>
      timelock_hours (fst (create_execution_plan now stps co ed an)) =
        timelock_hours (fst (create_execution_plan now' stps' co' ed' an')) \<and>
      required_signatures_plan (fst (create_execution_plan now stps co ed an)) =
        required_signatures_plan (fst (create_execution_plan now' stps' co' ed' an')))"
proof -
  have table: "(90 \<le> u \<longrightarrow> calculate_timelock_hours u = 1) \<and>
   (75 \<le> u \<and> u < 90 \<longrightarrow> calculate_timelock_hours u = 3) \<and>
   (50 \<le> u \<and> u < 75 \<longrightarrow> calculate_timelock_hours u = 6) \<and>
   (u < 50 \<longrightarrow> calculate_timelock_hours u = 12)"
    by (simp add: calculate_timelock_hours_def)
  have range: "calculate_timelock_hours u \<in> {1, 3, 6, 12}"
    by (simp add: calculate_timelock_hours_def)
  have plan: "timelock_hours (fst (create_execution_plan t s c e a)) =
        calculate_timelock_hours (urgency_score a) \<and>
      required_signatures_plan (fst (create_execution_plan t s c e a)) =
        calculate_required_signatures (Enum_member (severity_level a)) (urgency_score a)"
    for t s c e a
    by (simp add: create_execution_plan_def new_execution_plan_def Let_def)
  have same: "timelock_hours (fst (create_execution_plan now stps co ed an)) =
        timelock_hours (fst (create_execution_plan now' stps' co' ed' an')) \<and>
      required_signatures_plan (fst (create_execution_plan now stps co ed an)) =
        required_signatures_plan (fst (create_execution_plan now' stps' co' ed' an'))"
    if "severity_level an = severity_level an'" and "urgency_score an = urgency_score an'"
    using that by (simp only: plan)
  from table range same show ?thesis by blast
qed

theorem timelock_hours_derivation_witness:
  "calculate_timelock_hours 85 = 3 \<and>
   timelock_hours (fst (create_execution_plan 0 test_steps
      \<lparr>executions = Map.empty, signature_collector = None\<rparr> test_emergency_data test_analysis)) =
   timelock_hours (fst (create_execution_plan 7 []
      \<lparr>executions = Map.empty, signature_collector = Some new_SignatureCollector\<rparr>
      (test_emergency_data\<lparr>emergency_id := ''other''\<rparr>) (test_analysis\<lparr>reasoning := ''again''\<rparr>)))"
proof -
  have a: "severity_level test_analysis = severity_level (test_analysis\<lparr>reasoning := ''again''\<rparr>) \<and>
      urgency_score test_analysis = urgency_score (test_analysis\<lparr>reasoning := ''again''\<rparr>)"
    by simp
  have b: "(75::int) \<le> 85 \<and> (85::int) < 90" by simp
  note t = timelock_hours_derivation [of 85 test_analysis "test_analysis\<lparr>reasoning := ''again''\<rparr>"
      0 test_steps "\<lparr>executions = Map.empty, signature_collector = None\<rparr>" test_emergency_data
      7 "[]" "\<lparr>executions = Map.empty, signature_collector = Some new_SignatureCollector\<rparr>"
      "test_emergency_data\<lparr>emergency_id := ''other''\<rparr>"]
  from t a b show ?thesis by blast
qed


subsection \<open>Cancelling an execution\<close>

lemmas coordinator_eval =
  create_execution_plan_def plan_eval str_int_def str_nat.simps digit_char_def
  map_emergency_to_operation_type_def cancel_execution_def

text \<open>
  Claim C7, as stated, fails: the second cancel of a cancelled plan returns true, as the
  first did.
\<close>

theorem cancel_twice_returns_true:
  "fst (cancel_execution
         (snd (create_execution_plan 0 test_steps
                 \<lparr>executions = Map.empty, signature_collector = Some new_SignatureCollector\<rparr>
                 test_emergency_data test_analysis))
         ''exec_emerg_001_0'' ''first'') \<and>
   map_option status_plan
     (executions (snd (cancel_execution
         (snd (create_execution_plan 0 test_steps
                 \<lparr>executions = Map.empty, signature_collector = Some new_SignatureCollector\<rparr>
                 test_emergency_data test_analysis))
         ''exec_emerg_001_0'' ''first'')) ''exec_emerg_001_0'') = Some CANCELLED_exec \<and>
   fst (cancel_execution
         (snd (cancel_execution
           (snd (create_execution_plan 0 test_steps
                 \<lparr>executions = Map.empty, signature_collector = Some new_SignatureCollector\<rparr>
                 test_emergency_data test_analysis))
           ''exec_emerg_001_0'' ''first''))
         ''exec_emerg_001_0'' ''second'')"
  by (simp add: coordinator_eval collector_eval)

text \<open>
  Claim C7, amended. When a cancel has succeeded, the plan is cancelled, and a second
  cancel right after it returns true again and leaves the registry of plans and the
  collector, with its collection, as the first cancel left them.
\<close>

theorem cancel_twice_unchanged:
  assumes "cancel_execution co eid reason1 = (True, co1)"
  shows "cancel_execution co1 eid reason2 = (True, co1) \<and>
         (\<exists>p. executions co1 eid = Some p \<and> status_plan p = CANCELLED_exec)"
proof -
  from assms obtain plan where plan: "executions co eid = Some plan"
    by (auto simp: cancel_execution_def split: option.splits)
  let ?p = "plan\<lparr>status_plan := CANCELLED_exec\<rparr>"
  let ?co = "co\<lparr>executions := (executions co)(eid \<mapsto> ?p)\<rparr>"
  show ?thesis
  proof (cases "signature_collector co")
    case None
    with assms plan have co1: "co1 = ?co"
      by (auto simp: cancel_execution_def Let_def split: if_splits)
    have "co1\<lparr>executions := (executions co1)(eid \<mapsto> ?p)\<rparr> = co1"
      unfolding co1 by simp
    with None co1 show ?thesis
      by (simp add: cancel_execution_def Let_def)
  next
    case (Some sc)
    let ?sc = "snd (cancel_collection sc eid reason1)"
    from assms plan Some have co1: "co1 = ?co\<lparr>signature_collector := Some ?sc\<rparr>"
      by (auto simp: cancel_execution_def Let_def split: if_splits)
    have again: "snd (cancel_collection ?sc eid reason2) = ?sc"
    proof (cases "collections sc eid")
      case None
      then show ?thesis by (simp add: cancel_collection_def)
    next
      case (Some c)
      then show ?thesis by (simp add: cancel_collection_def)
    qed
    have "co1\<lparr>executions := (executions co1)(eid \<mapsto> ?p)\<rparr> = co1"
      unfolding co1 by simp
    with co1 again show ?thesis
      by (simp add: cancel_execution_def Let_def)
  qed
qed

theorem cancel_twice_unchanged_witness:
  "cancel_execution
         (snd (cancel_execution
           (snd (create_execution_plan 0 test_steps
                 \<lparr>executions = Map.empty, signature_collector = Some new_SignatureCollector\<rparr>
                 test_emergency_data test_analysis))
           ''exec_emerg_001_0'' ''first''))
         ''exec_emerg_001_0'' ''second'' =
     (True, snd (cancel_execution
           (snd (create_execution_plan 0 test_steps
                 \<lparr>executions = Map.empty, signature_collector = Some new_SignatureCollector\<rparr>
                 test_emergency_data test_analysis))
           ''exec_emerg_001_0'' ''first''))"
proof -
  let ?co = "snd (create_execution_plan 0 test_steps
                 \<lparr>executions = Map.empty, signature_collector = Some new_SignatureCollector\<rparr>
                 test_emergency_data test_analysis)"
  let ?r = "cancel_execution ?co ''exec_emerg_001_0'' ''first''"
  have "fst ?r" by (simp add: coordinator_eval collector_eval)
  then have h: "?r = (True, snd ?r)" by (simp add: prod_eq_iff)
  from cancel_twice_unchanged [OF h, of "''second''"] show ?thesis
    by (rule conjunct1)
qed


subsection \<open>Failed phases of an execution\<close>

text \<open>
  Whenever \<^verbatim>\<open>execute_plan\<close> returns a result that names a failed step, the stored plan
  carries the status of the phase that was running, never \<open>FAILED_exec\<close>: only the handler
  of the outer \<^verbatim>\<open>try\<close> sets that status, and it names no step.
\<close>

lemma signature_phase_failure_keeps_plan:
  "execute_signature_collection_phase env sched co plan = Some (False, co', plan') \<Longrightarrow> plan' = plan"
  by (auto simp: execute_signature_collection_phase_def split: option.splits prod.splits if_splits bool.splits)

lemma execute_plan_failed_step:
  assumes "execute_plan env sched co eid = Some (res, calls, co')"
    and "failed_step res = Some l"
  shows "\<exists>p. executions co' eid = Some p \<and>
           status_plan p = (if l = ''preparation'' then IN_PROGRESS_exec
                            else if l = ''signature_collection'' then WAITING_SIGNATURES
                            else EXECUTING)"
proof (cases "executions co eid")
  case None
  with assms show ?thesis by (auto simp: execute_plan_def error_result_def)
next
  case (Some plan0)
  with assms show ?thesis
    by (auto simp: execute_plan_def Let_def error_result_def success_result_def store_plan_def
        split: option.splits prod.splits if_splits bool.splits
        dest!: signature_phase_failure_keeps_plan)
qed

lemma failed_step_never_reported_failed:
  assumes "execute_plan env sched co eid = Some (res, calls, co')"
    and "failed_step res = Some l"
  shows "reported_status_after (execute_plan env sched co eid) eid \<in>
           {Some ''in_progress'', Some ''waiting_signatures'', Some ''executing''}"
proof -
  from execute_plan_failed_step [OF assms] obtain p where "executions co' eid = Some p"
    and "status_plan p \<in> {IN_PROGRESS_exec, WAITING_SIGNATURES, EXECUTING}"
    by (auto split: if_splits)
  with assms(1) show ?thesis
    by (auto simp: reported_status_after_def get_execution_status_def Let_def)
qed

lemmas execute_eval =
  execute_plan_def execute_preparation_phase_def execute_signature_collection_phase_def
  store_plan_def error_result_def reported_status_after_def failed_step_of_def
  get_execution_status_def new_ExecutionCoordinator_def test_plan_8_def test_schedule_def
  start_collection_def send_signature_requests_def py_slice_to_def simulate_append
  init_mock_guardians_def wait_for_signatures.simps monitor_collection_round_def Let_def

text \<open>
  Claim C6 does not hold of the code. A plan without steps fails in preparation and is
  reported \<open>in_progress\<close> afterwards; a plan asking for 8 signatures, of which the 5
  stand-in guardians give 5, fails in signature collection when its time lock has run out
  and is reported \<open>waiting_signatures\<close> afterwards.
\<close>

theorem failed_phase_not_recorded:
  "failed_step_of (execute_plan mock_env test_schedule
      (snd (create_execution_plan 0 [] new_ExecutionCoordinator test_emergency_data test_analysis))
      ''exec_emerg_001_0'') = Some ''preparation'' \<and>
   reported_status_after (execute_plan mock_env test_schedule
      (snd (create_execution_plan 0 [] new_ExecutionCoordinator test_emergency_data test_analysis))
      ''exec_emerg_001_0'') ''exec_emerg_001_0'' = Some ''in_progress'' \<and>
   failed_step_of (execute_plan mock_env test_schedule
      (store_plan new_ExecutionCoordinator ''exec_emerg_001_0'' test_plan_8)
      ''exec_emerg_001_0'') = Some ''signature_collection'' \<and>
   reported_status_after (execute_plan mock_env test_schedule
      (store_plan new_ExecutionCoordinator ''exec_emerg_001_0'' test_plan_8)
      ''exec_emerg_001_0'') ''exec_emerg_001_0'' = Some ''waiting_signatures''"
proof -
  have a: "execute_plan mock_env test_schedule
      (snd (create_execution_plan 0 [] new_ExecutionCoordinator test_emergency_data test_analysis))
      ''exec_emerg_001_0'' =
    Some (error_result ''exec_emerg_001_0'' ''Preparation phase failed'' (Some ''preparation''), [],
      store_plan (snd (create_execution_plan 0 [] new_ExecutionCoordinator test_emergency_data test_analysis))
        ''exec_emerg_001_0''
        ((new_execution_plan 0 [] test_emergency_data test_analysis)\<lparr>status_plan := IN_PROGRESS_exec\<rparr>))"
    by (simp add: execute_eval coordinator_eval)
  have b: "failed_step_of (execute_plan mock_env test_schedule
      (store_plan new_ExecutionCoordinator ''exec_emerg_001_0'' test_plan_8)
      ''exec_emerg_001_0'') = Some ''signature_collection''"
    by (simp add: execute_eval coordinator_eval collector_eval)
  have c: "reported_status_after (execute_plan mock_env test_schedule
      (store_plan new_ExecutionCoordinator ''exec_emerg_001_0'' test_plan_8)
      ''exec_emerg_001_0'') ''exec_emerg_001_0'' = Some ''waiting_signatures''"
    by (simp add: execute_eval coordinator_eval collector_eval)
  from a b c show ?thesis
    by (simp add: failed_step_of_def reported_status_after_def error_result_def
        get_execution_status_def store_plan_def)
qed


subsection \<open>Guardian response monitor\<close>

text \<open>
  What a finished run of the loop tells: the round \<open>i\<close> at which it was left, the rounds
  before it all within the deadline and without sufficient responses, and the one further
  reading of the clock that decides the call of the timeout handler.
\<close>

lemma monitor_loop_Some:
  "monitor_loop T n clock reads = Some out \<Longrightarrow>
     \<exists>i. i + 1 < length clock \<and>
         (\<forall>j<i. clock ! j < T \<and> j < length reads \<and> \<not> sufficient_responses (reads ! j)) \<and>
         escalations out = (if clock ! (i + 1) \<ge> T then 1 else 0) \<and>
         (if responses_sufficed out
          then clock ! i < T \<and> i < length reads \<and> sufficient_responses (reads ! i) \<and>
               rounds out = n + i + 1
          else clock ! i \<ge> T \<and> rounds out = n + i)"
proof (induction T n clock reads rule: monitor_loop.induct)
  case (1 T n reads)
  then show ?case by simp
next
  case (2 T n now clock reads)
  show ?case
  proof (cases "now < T")
    case False
    with "2.prems" obtain now' rest where clock: "clock = now' # rest"
      by (cases clock) auto
    with False "2.prems" have out: "out = \<lparr>rounds = n, responses_sufficed = False,
        escalations = (if now' \<ge> T then 1 else 0)\<rparr>"
      by simp
    show ?thesis
      by (rule exI [of _ 0]) (use False clock out in simp)
  next
    case True
    with "2.prems" obtain gs reads' where reads: "reads = gs # reads'"
      by (cases reads) auto
    show ?thesis
    proof (cases "sufficient_responses gs")
      case suff: True
      with True reads "2.prems" obtain now' rest where clock: "clock = now' # rest"
        by (cases clock) auto
      with True reads suff "2.prems" have out: "out = \<lparr>rounds = Suc n, responses_sufficed = True,
          escalations = (if now' \<ge> T then 1 else 0)\<rparr>"
        by simp
      show ?thesis
        by (rule exI [of _ 0]) (use True reads suff clock out in simp)
    next
      case insuff: False
      with True reads "2.prems" have rec: "monitor_loop T (Suc n) clock reads' = Some out"
        by simp
      from "2.IH" [OF True reads insuff rec] obtain i where i: "i + 1 < length clock"
        "\<forall>j<i. clock ! j < T \<and> j < length reads' \<and> \<not> sufficient_responses (reads' ! j)"
        "escalations out = (if clock ! (i + 1) \<ge> T then 1 else 0)"
        "if responses_sufficed out
          then clock ! i < T \<and> i < length reads' \<and> sufficient_responses (reads' ! i) \<and>
               rounds out = Suc n + i + 1
          else clock ! i \<ge> T \<and> rounds out = Suc n + i"
        by blast
      have all: "\<forall>j<Suc i. (now # clock) ! j < T \<and> j < length reads \<and>
          \<not> sufficient_responses (reads ! j)"
        using i(2) True insuff reads by (auto simp: nth_Cons split: nat.splits)
      show ?thesis
        by (rule exI [of _ "Suc i"]) (use i all reads in \<open>auto split: if_splits\<close>)
    qed
  qed
qed

text \<open>
  The task ends once the clock has reached the deadline, given one reading more and a
  dictionary of guardian states for every round before.
\<close>

lemma monitor_loop_returns:
  "m + 1 < length clock \<Longrightarrow> m \<le> length reads \<Longrightarrow> clock ! m \<ge> T \<Longrightarrow>
     \<exists>out. monitor_loop T n clock reads = Some out"
proof (induction T n clock reads arbitrary: m rule: monitor_loop.induct)
  case (1 T n reads)
  then show ?case by simp
next
  case (2 T n now clock reads)
  from "2.prems"(1) obtain now' rest where clock: "clock = now' # rest"
    by (cases clock) auto
  show ?case
  proof (cases "now < T")
    case False
    with clock show ?thesis by simp
  next
    case True
    with "2.prems"(3) obtain m' where m: "m = Suc m'"
      by (cases m) auto
    with "2.prems"(2) obtain gs reads' where reads: "reads = gs # reads'"
      by (cases reads) auto
    show ?thesis
    proof (cases "sufficient_responses gs")
      case suff: True
      with True reads clock show ?thesis by simp
    next
      case insuff: False
      from "2.prems" m reads have "m' + 1 < length clock" "m' \<le> length reads'" "clock ! m' \<ge> T"
        by simp_all
      from "2.IH" [OF True reads insuff this] True reads insuff show ?thesis
        by simp
    qed
  qed
qed


text \<open>
  Claim C9, as stated, fails. With an urgency of 85 no monitor is started when the
  dispatch of the notifications raised; and a monitor whose first reading of the guardian
  states finds every guardian responded, ten microseconds before the deadline, calls the
  timeout handler all the same, the deadline having passed when the loop is left.
\<close>

theorem monitor_started_and_escalates_counterexample:
  "notify_guardians_of_emergency (Inl ''dispatch failed'') test_emergency_data test_analysis = [] \<and>
   urgency_score test_analysis \<ge> 80 \<and>
   monitor_guardian_responses 30 [0, 1799999990, 1800000000] [ [(''g1'', RESPONDED)] ] =
     Some \<lparr>rounds = 1, responses_sufficed = True, escalations = 1\<rparr>"
  by (simp add: notify_guardians_of_emergency_def test_analysis_def monitor_guardian_responses_def
      microseconds_per_minute_def sufficient_responses_def responded_count_def)

text \<open>
  Claim C9, amended. A monitor, with a timeout of 30 minutes, is started exactly when the
  dispatch of the notifications returned and the urgency is at least 80. Each round reads
  the guardian states once; the loop is left at the first round whose reading has at least
  0.7 times the roster acknowledged or responded, or whose clock reading has reached the
  deadline, whichever comes first. The clock is then read once more, and the timeout
  handler is called once if that reading has reached the deadline and not at all
  otherwise: so exactly once when the deadline ended the loop (the clock not running
  backwards), and after sufficient responses only if the deadline passed meanwhile. The
  task ends once the clock reaches the deadline.
\<close>

theorem guardian_monitor_behaviour:
  "(notify_guardians_of_emergency dispatch ed an =
      (if (\<exists>results. dispatch = Inr results) \<and> urgency_score an \<ge> 80
       then [(emergency_id ed, 30)] else [])) \<and>
   (monitor_guardian_responses tm (start # clock) reads = Some out \<longrightarrow>
      (\<exists>i. i + 1 < length clock \<and>
         (\<forall>j<i. clock ! j < start + tm * microseconds_per_minute \<and> j < length reads \<and>
                \<not> sufficient_responses (reads ! j)) \<and>
         escalations out = (if clock ! (i + 1) \<ge> start + tm * microseconds_per_minute then 1 else 0) \<and>
         (if responses_sufficed out
          then clock ! i < start + tm * microseconds_per_minute \<and> i < length reads \<and>
               sufficient_responses (reads ! i) \<and> rounds out = i + 1
          else clock ! i \<ge> start + tm * microseconds_per_minute \<and> rounds out = i)) \<and>
      (sorted clock \<and> \<not> responses_sufficed out \<longrightarrow> escalations out = 1)) \<and>
   (m + 1 < length clock \<and> m \<le> length reads \<and> clock ! m \<ge> start + tm * microseconds_per_minute \<longrightarrow>
      monitor_guardian_responses tm (start # clock) reads \<noteq> None)"
proof -
  let ?T = "start + tm * microseconds_per_minute"
  have a: "notify_guardians_of_emergency dispatch ed an =
      (if (\<exists>results. dispatch = Inr results) \<and> urgency_score an \<ge> 80
       then [(emergency_id ed, 30)] else [])"
    by (cases dispatch) (simp_all add: notify_guardians_of_emergency_def default_timeout_minutes_def)
  have run: "monitor_guardian_responses tm (start # clock) reads = monitor_loop ?T 0 clock reads"
    by (simp add: monitor_guardian_responses_def)
  have b: "\<exists>i. i + 1 < length clock \<and>
         (\<forall>j<i. clock ! j < ?T \<and> j < length reads \<and> \<not> sufficient_responses (reads ! j)) \<and>
         escalations out = (if clock ! (i + 1) \<ge> ?T then 1 else 0) \<and>
         (if responses_sufficed out
          then clock ! i < ?T \<and> i < length reads \<and> sufficient_responses (reads ! i) \<and>
               rounds out = i + 1
          else clock ! i \<ge> ?T \<and> rounds out = i)"
    if "monitor_guardian_responses tm (start # clock) reads = Some out"
  proof -
    from that have "monitor_loop ?T 0 clock reads = Some out"
      unfolding run .
    from monitor_loop_Some [OF this] show ?thesis
      unfolding add_0 .
  qed
  have c: "escalations out = 1"
    if some: "monitor_guardian_responses tm (start # clock) reads = Some out"
      and "sorted clock" and ns: "\<not> responses_sufficed out"
  proof -
    from b [OF some] ns obtain i where i: "i + 1 < length clock"
      "escalations out = (if clock ! (i + 1) \<ge> ?T then 1 else 0)" "clock ! i \<ge> ?T"
      by auto
    from \<open>sorted clock\<close> i(1) have "clock ! i \<le> clock ! (i + 1)"
      by (simp add: sorted_nth_mono)
    with i show ?thesis by simp
  qed
  have d: "monitor_guardian_responses tm (start # clock) reads \<noteq> None"
    if "m + 1 < length clock" "m \<le> length reads" "clock ! m \<ge> ?T"
    using monitor_loop_returns [OF that, of 0] unfolding run by auto
  from a b c d show ?thesis by blast
qed

theorem guardian_monitor_behaviour_witness:
  "notify_guardians_of_emergency (Inr (3, 3)) test_emergency_data test_analysis = [(''emerg_001'', 30)] \<and>
   monitor_guardian_responses 30 [0, 10, 1800000000, 1800000005] [ [(''g1'', NOTIFIED)] ] =
     Some \<lparr>rounds = 1, responses_sufficed = False, escalations = 1\<rparr>"
proof -
  let ?out = "\<lparr>rounds = 1, responses_sufficed = False, escalations = 1\<rparr>"
  have run: "monitor_guardian_responses 30 [0, 10, 1800000000, 1800000005] [ [(''g1'', NOTIFIED)] ] = Some ?out"
    by (simp add: monitor_guardian_responses_def microseconds_per_minute_def
        sufficient_responses_def responded_count_def)
  have st: "sorted [10, 1800000000, 1800000005 :: int] \<and> \<not> responses_sufficed ?out"
    by simp
  have n: "notify_guardians_of_emergency (Inr (3, 3)) test_emergency_data test_analysis =
      (if (\<exists>results. (Inr (3, 3) :: string + nat \<times> nat) = Inr results) \<and> urgency_score test_analysis \<ge> 80
       then [(emergency_id test_emergency_data, 30)] else [])"
    using guardian_monitor_behaviour [of "Inr (3, 3)" test_emergency_data test_analysis] by blast
  have "escalations ?out = 1"
    using guardian_monitor_behaviour [of _ _ _ 30 0 "[10, 1800000000, 1800000005]"
        "[ [(''g1'', NOTIFIED)] ]" ?out] run st by blast
  with n run show ?thesis
    by (simp add: test_analysis_def test_emergency_data_def)
qed


end
